theory Spec2Isabelle
  imports Main "HOL-Library.Word" "HOL-Library.Multiset" "HOL-Library.Char_ord"
    "HOL-Library.List_Lexorder"
begin

section \<open>Manual-connection identifiers (package history)\<close>

text \<open>
  Go strings are byte sequences; they are modelled as \<^typ>\<open>string\<close> (a list of 8-bit
  characters). \<open>len\<close> is \<^const>\<open>length\<close>, the slice \<open>s[a:]\<close> is \<open>drop a s\<close> and
  \<open>s[:b]\<close> is \<open>take b s\<close>; every slice below is taken inside the bounds that the
  surrounding tests establish, as in the source.
\<close>

record ManualConnection =
  User :: string
  Hostname :: string
  Port :: string
  Identity :: string

text \<open>\<open>generateManualHostID\<close>: \<open>fmt.Sprintf("manual:%s@%s:%s", user, conn.Hostname, port)\<close>
  after the two defaults.\<close>

definition generateManualHostID :: "ManualConnection \<Rightarrow> string" where
  "generateManualHostID conn =
     (let user = (if User conn = [] then ''default'' else User conn);
          port = (if Port conn = [] then ''22'' else Port conn)
      in ''manual:'' @ user @ ''@'' @ Hostname conn @ '':'' @ port)"

text \<open>\<open>IsManualConnection\<close>: \<open>len(hostName) > 7 && hostName[:7] == "manual:"\<close>.\<close>

definition IsManualConnection :: "string \<Rightarrow> bool" where
  "IsManualConnection hostName \<longleftrightarrow> length hostName > 7 \<and> take 7 hostName = ''manual:''"

text \<open>The first loop of \<open>ParseManualConnectionID\<close>:
  \<open>for i := len(parts) - 1; i >= 0; i-- { if parts[i] == ':' { lastColon = i; break } }\<close>.
  The argument \<open>n\<close> is \<open>i + 1\<close>; the sentinel \<open>-1\<close> is \<open>None\<close>.\<close>

fun lastColonFrom :: "string \<Rightarrow> nat \<Rightarrow> nat option" where
  "lastColonFrom parts 0 = None"
| "lastColonFrom parts (Suc i) =
     (if parts ! i = CHR '':'' then Some i else lastColonFrom parts i)"

text \<open>The second loop:
  \<open>for i := 0; i < len(userHost); i++ { if userHost[i] == '@' { atSign = i; break } }\<close>.\<close>

fun firstAtSign :: "string \<Rightarrow> nat option" where
  "firstAtSign [] = None"
| "firstAtSign (c # cs) =
     (if c = CHR ''@'' then Some 0 else map_option Suc (firstAtSign cs))"

text \<open>\<open>ParseManualConnectionID\<close>; \<open>ok = false\<close> is \<open>None\<close>, otherwise the triple
  \<open>(user, hostname, port)\<close>.\<close>

definition ParseManualConnectionID :: "string \<Rightarrow> (string \<times> string \<times> string) option" where
  "ParseManualConnectionID hostID =
     (if \<not> IsManualConnection hostID then None
      else
        let parts = drop 7 hostID in
        case lastColonFrom parts (length parts) of
          None \<Rightarrow> None
        | Some lastColon \<Rightarrow>
            let port = drop (lastColon + 1) parts;
                userHost = take lastColon parts in
            (case firstAtSign userHost of
               None \<Rightarrow> None
             | Some atSign \<Rightarrow>
                 Some (take atSign userHost, drop (atSign + 1) userHost, port)))"

section \<open>Parsing ssh arguments (internal/history/parser.go)\<close>

text \<open>\<open>strings.HasPrefix(s, prefix)\<close> and \<open>strings.Contains(s, "@")\<close>.\<close>

definition HasPrefix :: "string \<Rightarrow> string \<Rightarrow> bool" where
  "HasPrefix s pre \<longleftrightarrow> take (length pre) s = pre"

definition ContainsAt :: "string \<Rightarrow> bool" where
  "ContainsAt s \<longleftrightarrow> CHR ''@'' \<in> set s"

text \<open>\<open>strings.SplitN(arg, "@", 2)\<close>: at most two pieces, cut at the first \<open>@\<close>.\<close>

definition SplitN_at_2 :: "string \<Rightarrow> string list" where
  "SplitN_at_2 s =
     (if CHR ''@'' \<in> set s
      then [takeWhile (\<lambda>c. c \<noteq> CHR ''@'') s, drop 1 (dropWhile (\<lambda>c. c \<noteq> CHR ''@'') s)]
      else [s])"

text \<open>
  The \<open>for i := 0; i < len(args); i++\<close> loop of \<open>ParseSSHArgs\<close>, as a recursion on the
  tokens still to be read (\<open>args[i:]\<close>). A branch that executes \<open>i++\<close> drops the next
  token as well; the test \<open>i+1 < len(args)\<close> is the case distinction on the rest. The
  \<open>return nil, false\<close> inside the loop is \<open>None\<close>.
\<close>

fun parseLoop :: "ManualConnection \<Rightarrow> string list \<Rightarrow> ManualConnection option" where
  "parseLoop conn [] = Some conn"
| "parseLoop conn (arg # rest) =
     (if arg = ''-p'' then
        (case rest of
           [] \<Rightarrow> parseLoop conn []
         | v # rest' \<Rightarrow> parseLoop (conn\<lparr>Port := v\<rparr>) rest')
      else if HasPrefix arg ''-p'' then parseLoop (conn\<lparr>Port := drop 2 arg\<rparr>) rest
      else if arg = ''-i'' then
        (case rest of
           [] \<Rightarrow> parseLoop conn []
         | v # rest' \<Rightarrow> parseLoop (conn\<lparr>Identity := v\<rparr>) rest')
      else if arg = ''-F'' \<or> arg = ''-c'' \<or> arg = ''--config'' then None
      else if HasPrefix arg ''-'' then
        (case rest of
           [] \<Rightarrow> parseLoop conn []
         | v # rest' \<Rightarrow> if \<not> HasPrefix v ''-'' then parseLoop conn rest' else parseLoop conn rest)
      else if ContainsAt arg then
        (case SplitN_at_2 arg of
           [u, h] \<Rightarrow> parseLoop (conn\<lparr>User := u, Hostname := h\<rparr>) rest
         | _ \<Rightarrow> parseLoop conn rest)
      else if Hostname conn = [] then parseLoop (conn\<lparr>Hostname := arg\<rparr>) rest
      else parseLoop conn rest)"

text \<open>
  \<open>ParseSSHArgs\<close>. The result of \<open>user.Current()\<close> is the parameter \<open>currentUser\<close>:
  \<open>Some name\<close> when the lookup succeeds, \<open>None\<close> when it returns an error (the field
  \<open>User\<close> then keeps Go's zero value, the empty string). \<open>(nil, false)\<close> is \<open>None\<close>.
\<close>

definition ParseSSHArgs :: "string option \<Rightarrow> string list \<Rightarrow> ManualConnection option" where
  "ParseSSHArgs currentUser args =
     (if length args = 0 then None
      else
        let conn0 = \<lparr>User = [], Hostname = [], Port = ''22'', Identity = []\<rparr>;
            conn = (case currentUser of None \<Rightarrow> conn0 | Some name \<Rightarrow> conn0\<lparr>User := name\<rparr>)
        in case parseLoop conn args of
             None \<Rightarrow> None
           | Some c \<Rightarrow> if Hostname c \<noteq> [] then Some c else None)"

text \<open>\<open>IsManualSSHCommand\<close>: the \<open>range\<close> loop returns at the first token that qualifies.\<close>

fun manualFlagLoop :: "string list \<Rightarrow> bool" where
  "manualFlagLoop [] = False"
| "manualFlagLoop (arg # rest) =
     (if arg = ''-p'' \<or> HasPrefix arg ''-p'' then True
      else if ContainsAt arg then True
      else manualFlagLoop rest)"

definition IsManualSSHCommand :: "string list \<Rightarrow> bool" where
  "IsManualSSHCommand args = (if length args = 0 then False else manualFlagLoop args)"

section \<open>The files the history manager works on\<close>

text \<open>
  The history manager reaches the disk through \<open>os.Stat\<close>, \<open>os.ReadFile\<close>,
  \<open>os.WriteFile\<close>, \<open>os.Remove\<close> and \<open>os.MkdirAll\<close>. The disk is an explicit state: the
  regular files with their content and permission bits, the directories with their
  permission bits, and a set of injected faults, the (operation, path) pairs on which the
  operating system refuses the call. A path is the list of its components, so that
  \<open>filepath.Join(dir, name)\<close> is \<open>dir @ [name]\<close> and \<open>filepath.Dir p\<close> is \<open>butlast p\<close>.
  Permission bits are the \<open>perm\<close> argument as passed (before the umask).
\<close>

type_synonym path = "string list"
type_synonym FileMode = nat

definition mode_0755 :: FileMode where "mode_0755 = 7 * 64 + 5 * 8 + 5"
definition mode_0700 :: FileMode where "mode_0700 = 7 * 64"
definition mode_0644 :: FileMode where "mode_0644 = 6 * 64 + 4 * 8 + 4"
definition mode_0600 :: FileMode where "mode_0600 = 6 * 64"

datatype error =
    ErrNotExist
  | ErrPermission
  | ErrNotDir
  | ErrIsDir
  | ErrJSON string
  | ErrOther string

text \<open>\<open>os.IsNotExist(err)\<close>.\<close>

definition IsNotExist :: "error \<Rightarrow> bool" where
  "IsNotExist e \<longleftrightarrow> e = ErrNotExist"

datatype fsop = OpStat | OpRead | OpWrite | OpRemove | OpMkdir

record FS =
  files :: "path \<rightharpoonup> (string \<times> FileMode)"
  dirs :: "path \<rightharpoonup> FileMode"
  faults :: "(fsop \<times> path) set"

text \<open>A function that returns only \<open>error\<close> returns \<open>error option\<close> here, \<open>None\<close> being
  \<open>nil\<close>; a function that returns a value and an error returns \<open>error + 'a\<close>.\<close>

definition os_Stat :: "FS \<Rightarrow> path \<Rightarrow> error option" where
  "os_Stat fs p =
     (if (OpStat, p) \<in> faults fs then Some ErrPermission
      else if files fs p \<noteq> None \<or> dirs fs p \<noteq> None then None
      else Some ErrNotExist)"

definition os_ReadFile :: "FS \<Rightarrow> path \<Rightarrow> error + string" where
  "os_ReadFile fs p =
     (if (OpRead, p) \<in> faults fs then Inl ErrPermission
      else case files fs p of
             Some (data, perm) \<Rightarrow> Inr data
           | None \<Rightarrow> if dirs fs p \<noteq> None then Inl ErrIsDir else Inl ErrNotExist)"

text \<open>\<open>os.WriteFile(name, data, perm)\<close> creates the file with \<open>perm\<close> when it does not
  exist, and otherwise truncates and writes it without changing its permissions.\<close>

definition os_WriteFile :: "FS \<Rightarrow> path \<Rightarrow> string \<Rightarrow> FileMode \<Rightarrow> error option \<times> FS" where
  "os_WriteFile fs p data perm =
     (if (OpWrite, p) \<in> faults fs then (Some ErrPermission, fs)
      else if dirs fs p \<noteq> None then (Some ErrIsDir, fs)
      else if dirs fs (butlast p) = None then (Some ErrNotExist, fs)
      else case files fs p of
             None \<Rightarrow> (None, fs\<lparr>files := (files fs)(p \<mapsto> (data, perm))\<rparr>)
           | Some (old, m) \<Rightarrow> (None, fs\<lparr>files := (files fs)(p \<mapsto> (data, m))\<rparr>))"

definition os_Remove :: "FS \<Rightarrow> path \<Rightarrow> error option \<times> FS" where
  "os_Remove fs p =
     (if (OpRemove, p) \<in> faults fs then (Some ErrPermission, fs)
      else if files fs p \<noteq> None then (None, fs\<lparr>files := (files fs)(p := None)\<rparr>)
      else if dirs fs p \<noteq> None then (Some ErrIsDir, fs)
      else (Some ErrNotExist, fs))"

text \<open>The path itself and all its ancestors, the root first.\<close>

definition ancestors :: "path \<Rightarrow> path list" where
  "ancestors p = map (\<lambda>n. take n p) [0..<Suc (length p)]"

text \<open>\<open>os.MkdirAll(path, perm)\<close> creates the directory and the missing parents, each with
  \<open>perm\<close>; directories that exist keep their permissions.\<close>

definition os_MkdirAll :: "FS \<Rightarrow> path \<Rightarrow> FileMode \<Rightarrow> error option \<times> FS" where
  "os_MkdirAll fs p perm =
     (if (OpMkdir, p) \<in> faults fs then (Some ErrPermission, fs)
      else if list_ex (\<lambda>q. files fs q \<noteq> None) (ancestors p) then (Some ErrNotDir, fs)
      else (None, fs\<lparr>dirs := (\<lambda>q. if q \<in> set (ancestors p) \<and> dirs fs q = None
                                   then Some perm else dirs fs q)\<rparr>))"

section \<open>The history manager\<close>

text \<open>
  \<open>time.Time\<close> is an instant, modelled as an integer count of nanoseconds;
  \<open>t.After(u)\<close> is \<open>u < t\<close>. \<open>ConnectCount\<close> is a Go \<open>int\<close>, 64 bits wide on the
  platforms the program is built for: a \<open>64 word\<close>, read as signed by the comparisons
  (\<open>a > b\<close> is \<open>b <s a\<close>), and \<open>ConnectCount++\<close> wraps around.
\<close>

type_synonym Time = int

record PortForwardConfig =
  Type :: string
  LocalPort :: string
  RemoteHost :: string
  RemotePort :: string
  BindAddress :: string

record ConnectionInfo =
  HostName :: string
  LastConnect :: Time
  ConnectCount :: "64 word"
  PortForwarding :: "PortForwardConfig option"

text \<open>The map \<open>Connections\<close> is the one \<open>NewHistoryManager\<close> allocates with \<open>make\<close>; a
  key that is absent reads as \<open>(zero value, false)\<close>, which is \<open>None\<close>.\<close>

record ConnectionHistory =
  Connections :: "string \<rightharpoonup> ConnectionInfo"

record HistoryManager =
  historyPath :: path
  history :: ConnectionHistory

text \<open>
  What the package takes from outside the file: the two directory look-ups of package
  \<open>config\<close> (\<open>GetSSHMConfigDir\<close>, \<open>GetSSHDirectory\<close>), whose source is not part of the
  files at hand, and the JSON codec of the standard library. \<open>json.Unmarshal\<close> either
  fails with a message or yields the decoded map; \<open>json.MarshalIndent\<close> likewise.
\<close>

record Env =
  GetSSHMConfigDir :: "error + path"
  GetSSHDirectory :: "error + path"
  Unmarshal :: "string \<Rightarrow> string + (string \<rightharpoonup> ConnectionInfo)"
  MarshalIndent :: "ConnectionHistory \<Rightarrow> string + string"

text \<open>\<open>migrateOldHistoryFile\<close>.\<close>

definition migrateOldHistoryFile :: "Env \<Rightarrow> FS \<Rightarrow> path \<Rightarrow> error option \<times> FS" where
  "migrateOldHistoryFile env fs newHistoryPath =
     (if os_Stat fs newHistoryPath = None then (None, fs)
      else case GetSSHDirectory env of
        Inl err \<Rightarrow> (Some err, fs)
      | Inr sshDir \<Rightarrow>
          let oldHistoryPath = sshDir @ [''sshm_history.json''] in
          if (case os_Stat fs oldHistoryPath of None \<Rightarrow> False | Some err \<Rightarrow> IsNotExist err)
          then (None, fs)
          else case os_ReadFile fs oldHistoryPath of
            Inl err \<Rightarrow> (Some err, fs)
          | Inr data \<Rightarrow>
              (case os_WriteFile fs newHistoryPath data mode_0644 of
                 (Some err, fs') \<Rightarrow> (Some err, fs')
               | (None, fs') \<Rightarrow> (None, snd (os_Remove fs' oldHistoryPath))))"

text \<open>\<open>loadHistory\<close>: \<open>json.Unmarshal(data, hm.history)\<close> decodes into the map that is
  already there, keeping its entries.\<close>

definition loadHistory :: "Env \<Rightarrow> HistoryManager \<Rightarrow> FS \<Rightarrow> error option \<times> HistoryManager" where
  "loadHistory env hm fs =
     (case os_ReadFile fs (historyPath hm) of
        Inl err \<Rightarrow> (Some err, hm)
      | Inr data \<Rightarrow>
          (case Unmarshal env data of
             Inl msg \<Rightarrow> (Some (ErrJSON msg), hm)
           | Inr decoded \<Rightarrow>
               (None, hm\<lparr>history := \<lparr>Connections = Connections (history hm) ++ decoded\<rparr>\<rparr>)))"

text \<open>\<open>saveHistory\<close>.\<close>

definition saveHistory :: "Env \<Rightarrow> HistoryManager \<Rightarrow> FS \<Rightarrow> error option \<times> FS" where
  "saveHistory env hm fs =
     (let dir = butlast (historyPath hm) in
      case os_MkdirAll fs dir mode_0700 of
        (Some err, fs') \<Rightarrow> (Some err, fs')
      | (None, fs') \<Rightarrow>
          (case MarshalIndent env (history hm) of
             Inl msg \<Rightarrow> (Some (ErrJSON msg), fs')
           | Inr data \<Rightarrow> os_WriteFile fs' (historyPath hm) data mode_0600))"

text \<open>\<open>NewHistoryManager\<close>: \<open>(nil, err)\<close> is \<open>Inl err\<close>. The error of the migration is
  bound and dropped, as the empty \<open>if\<close> body of the source does.\<close>

definition NewHistoryManager :: "Env \<Rightarrow> FS \<Rightarrow> (error + HistoryManager) \<times> FS" where
  "NewHistoryManager env fs =
     (case GetSSHMConfigDir env of
        Inl err \<Rightarrow> (Inl err, fs)
      | Inr configDir \<Rightarrow>
          (case os_MkdirAll fs configDir mode_0755 of
             (Some err, fs1) \<Rightarrow> (Inl err, fs1)
           | (None, fs1) \<Rightarrow>
               let historyPath = configDir @ [''sshm_history.json''];
                   fs2 = snd (migrateOldHistoryFile env fs1 historyPath);
                   hm = \<lparr>historyPath = historyPath,
                         history = \<lparr>Connections = Map.empty\<rparr>\<rparr>
               in case loadHistory env hm fs2 of
                    (Some err, hm') \<Rightarrow>
                      if \<not> IsNotExist err then (Inl err, fs2) else (Inr hm', fs2)
                  | (None, hm') \<Rightarrow> (Inr hm', fs2)))"

text \<open>\<open>RecordConnection\<close>; \<open>time.Now()\<close> is the parameter \<open>now\<close>. The manager is
  changed in memory before \<open>saveHistory\<close> runs, whatever \<open>saveHistory\<close> returns.\<close>

definition RecordConnection ::
  "Env \<Rightarrow> Time \<Rightarrow> string \<Rightarrow> HistoryManager \<Rightarrow> FS \<Rightarrow> error option \<times> HistoryManager \<times> FS" where
  "RecordConnection env now hostName hm fs =
     (let conns = Connections (history hm);
          conns' =
            (case conns hostName of
               Some conn \<Rightarrow>
                 conns(hostName \<mapsto> conn\<lparr>LastConnect := now, ConnectCount := ConnectCount conn + 1\<rparr>)
             | None \<Rightarrow>
                 conns(hostName \<mapsto> \<lparr>HostName = hostName, LastConnect = now, ConnectCount = 1,
                                     PortForwarding = None\<rparr>));
          hm' = hm\<lparr>history := \<lparr>Connections = conns'\<rparr>\<rparr>;
          (err, fs') = saveHistory env hm' fs
      in (err, hm', fs'))"



text \<open>
  \<open>config.SSHHost\<close> is declared in package \<open>config\<close>; the history manager reads only
  the field \<open>Name\<close>. The other fields are those the edit form fills in; they carry the
  prefix \<open>host\<close> here, since \<open>ManualConnection\<close> has fields of the same names.
\<close>

record SSHHost =
  Name :: string
  hostHostname :: string
  hostUser :: string
  hostPort :: string
  hostIdentity :: string
  hostProxyJump :: string
  hostOptions :: string
  hostRemoteCommand :: string
  hostRequestTTY :: string
  hostTags :: "string list"






text \<open>
  \<open>CleanupOldEntries\<close>. The first loop builds the set \<open>currentHostNames\<close> (a
  \<open>map[string]bool\<close>, where an absent key reads as \<open>false\<close>); the second visits every
  key of \<open>Connections\<close> and deletes the keys that are not in that set. The result does
  not depend on the order of the visit.
\<close>

fun currentHostNamesLoop :: "(string \<rightharpoonup> bool) \<Rightarrow> SSHHost list \<Rightarrow> (string \<rightharpoonup> bool)" where
  "currentHostNamesLoop names [] = names"
| "currentHostNamesLoop names (host # hosts) =
     currentHostNamesLoop (names(Name host \<mapsto> True)) hosts"

definition lookupBool :: "(string \<rightharpoonup> bool) \<Rightarrow> string \<Rightarrow> bool" where
  "lookupBool m k = (case m k of Some b \<Rightarrow> b | None \<Rightarrow> False)"

definition CleanupOldEntries ::
  "Env \<Rightarrow> SSHHost list \<Rightarrow> HistoryManager \<Rightarrow> FS \<Rightarrow> error option \<times> HistoryManager \<times> FS" where
  "CleanupOldEntries env currentHosts hm fs =
     (let currentHostNames = currentHostNamesLoop Map.empty currentHosts;
          conns' = (\<lambda>hostName.
             case Connections (history hm) hostName of
               None \<Rightarrow> None
             | Some conn \<Rightarrow> if \<not> lookupBool currentHostNames hostName then None else Some conn);
          hm' = hm\<lparr>history := \<lparr>Connections = conns'\<rparr>\<rparr>;
          (err, fs') = saveHistory env hm' fs
      in (err, hm', fs'))"

section \<open>The shell tool: \<open>sshm_delete\<close>\<close>


















section \<open>Example states\<close>

text \<open>
  Concrete surroundings on which the theorems below are exercised: an environment whose
  directories resolve to \<open>/home/u/.config/sshm\<close> and \<open>/home/u/.ssh\<close>, with a JSON
  codec that accepts the document \<open>{}\<close> only and prints every history as one fixed
  text; a disk that holds only the history file of an earlier version, under
  \<open>~/.ssh\<close>; and two history managers.
\<close>

definition exampleEnv :: Env where
  "exampleEnv =
     \<lparr>GetSSHMConfigDir = Inr [''home'', ''u'', ''.config'', ''sshm''],
      GetSSHDirectory = Inr [''home'', ''u'', ''.ssh''],
      Unmarshal = (\<lambda>data. if data = ''{}'' then Inr Map.empty else Inl ''syntax error''),
      MarshalIndent = (\<lambda>h. Inr ''{...}'')\<rparr>"

definition legacyFS :: FS where
  "legacyFS =
     \<lparr>files = [[''home'', ''u'', ''.ssh'', ''sshm_history.json''] \<mapsto> (''{}'', mode_0600)],
      dirs = [[] \<mapsto> mode_0755, [''home''] \<mapsto> mode_0755, [''home'', ''u''] \<mapsto> mode_0755,
              [''home'', ''u'', ''.ssh''] \<mapsto> mode_0700],
      faults = {}\<rparr>"












section \<open>Properties of the codec\<close>

lemma lastColonFrom_append:
  "CHR '':'' \<notin> set p \<Longrightarrow>
   lastColonFrom (xs @ CHR '':'' # p) (length xs + 1 + length p) = Some (length xs)"
proof (induction p rule: rev_induct)
  case Nil
  then show ?case by simp
next
  case (snoc c p)
  then have c: "c \<noteq> CHR '':''" and p: "CHR '':'' \<notin> set p" by auto
  have "(xs @ CHR '':'' # p @ [c]) ! (length xs + 1 + length p) = c"
    by (simp add: nth_append)
  moreover have "lastColonFrom (xs @ CHR '':'' # p @ [c]) (length xs + 1 + length p)
      = lastColonFrom (xs @ CHR '':'' # p) (length xs + 1 + length p)"
  proof -
    have gen: "n \<le> length as \<Longrightarrow> lastColonFrom (as @ bs) n = lastColonFrom as n" for as bs n
      by (induction n) (auto simp: nth_append)
    from gen [of "length xs + 1 + length p" "xs @ CHR '':'' # p" "[c]"] show ?thesis by simp
  qed
  ultimately show ?case using c snoc.IH [OF p] by simp
qed

lemma firstAtSign_append:
  "CHR ''@'' \<notin> set u \<Longrightarrow> firstAtSign (u @ CHR ''@'' # r) = Some (length u)"
  by (induction u) auto

lemma IsManualConnection_prefix: "IsManualConnection (''manual:'' @ c # r)"
  by (simp add: IsManualConnection_def)

lemma parse_generated:
  assumes u: "CHR ''@'' \<notin> set u" "u \<noteq> []" and p: "CHR '':'' \<notin> set p"
  shows "ParseManualConnectionID (''manual:'' @ u @ ''@'' @ h @ '':'' @ p) = Some (u, h, p)"
proof -
  let ?parts = "(u @ CHR ''@'' # h) @ CHR '':'' # p"
  obtain c r where ucr: "u = c # r" using u(2) by (cases u) auto
  have man: "IsManualConnection (''manual:'' @ u @ ''@'' @ h @ '':'' @ p)"
    using IsManualConnection_prefix [of c "r @ ''@'' @ h @ '':'' @ p"] by (simp add: ucr)
  have parts: "drop 7 (''manual:'' @ u @ ''@'' @ h @ '':'' @ p) = ?parts" by simp
  have len: "length ?parts = length (u @ CHR ''@'' # h) + 1 + length p" by simp
  have lc: "lastColonFrom ?parts (length ?parts) = Some (length (u @ CHR ''@'' # h))"
    unfolding len by (rule lastColonFrom_append [OF p])
  have tk: "take (length (u @ CHR ''@'' # h)) ?parts = u @ CHR ''@'' # h" by simp
  have dr: "drop (length (u @ CHR ''@'' # h) + 1) ?parts = p" by simp
  have fa: "firstAtSign (u @ CHR ''@'' # h) = Some (length u)"
    by (rule firstAtSign_append [OF u(1)])
  show ?thesis
    unfolding ParseManualConnectionID_def parts Let_def
    using man by (simp only: lc tk dr fa option.case if_False not_True_eq_False not_not simp_thms) simp
qed

text \<open>
  Claim C2, as amended. For every manual connection whose user contains no \<open>@\<close>, whose
  hostname is not empty and whose port contains no \<open>:\<close>, decoding the encoded
  identifier succeeds and gives back the user (\<open>default\<close> when it was empty), the
  hostname, and the port (\<open>22\<close> when it was empty).
\<close>

theorem C2_roundtrip:
  assumes "CHR ''@'' \<notin> set (User conn)" and "Hostname conn \<noteq> []"
    and "CHR '':'' \<notin> set (Port conn)"
  shows "ParseManualConnectionID (generateManualHostID conn) =
     Some (if User conn = [] then ''default'' else User conn,
           Hostname conn,
           if Port conn = [] then ''22'' else Port conn)"
proof -
  let ?u = "if User conn = [] then ''default'' else User conn"
  let ?p = "if Port conn = [] then ''22'' else Port conn"
  have u: "CHR ''@'' \<notin> set ?u" "?u \<noteq> []" using assms(1) by auto
  have p: "CHR '':'' \<notin> set ?p" using assms(3) by auto
  have "generateManualHostID conn = ''manual:'' @ ?u @ ''@'' @ Hostname conn @ '':'' @ ?p"
    by (simp add: generateManualHostID_def Let_def)
  then show ?thesis using parse_generated [OF u p] by simp
qed

theorem C2_roundtrip_witness:
  "CHR ''@'' \<notin> set (User \<lparr>User = [], Hostname = ''example.com'', Port = ''2222'', Identity = []\<rparr>)
   \<and> Hostname \<lparr>User = [], Hostname = ''example.com'', Port = ''2222'', Identity = []\<rparr> \<noteq> []
   \<and> CHR '':'' \<notin> set (Port \<lparr>User = [], Hostname = ''example.com'', Port = ''2222'', Identity = []\<rparr>)
   \<and> ParseManualConnectionID
        (generateManualHostID \<lparr>User = [], Hostname = ''example.com'', Port = ''2222'', Identity = []\<rparr>)
      = Some (''default'', ''example.com'', ''2222'')"
  using C2_roundtrip [of "\<lparr>User = [], Hostname = ''example.com'', Port = ''2222'', Identity = []\<rparr>"]
  by simp

text \<open>
  Claim C2 as stated does not ask anything of the port. The decoder cuts the port off at
  the last \<open>:\<close>, so a port that contains one is split: user \<open>u\<close>, hostname \<open>h\<close> and
  port \<open>2:2\<close> encode to \<open>manual:u@h:2:2\<close>, which decodes to hostname \<open>h:2\<close> and port
  \<open>2\<close>.
\<close>

theorem C2_port_with_colon_counterexample:
  "CHR ''@'' \<notin> set (User \<lparr>User = ''u'', Hostname = ''h'', Port = ''2:2'', Identity = []\<rparr>)
   \<and> Hostname \<lparr>User = ''u'', Hostname = ''h'', Port = ''2:2'', Identity = []\<rparr> \<noteq> []
   \<and> ParseManualConnectionID
        (generateManualHostID \<lparr>User = ''u'', Hostname = ''h'', Port = ''2:2'', Identity = []\<rparr>)
      = Some (''u'', ''h:2'', ''2'')
   \<and> ParseManualConnectionID
        (generateManualHostID \<lparr>User = ''u'', Hostname = ''h'', Port = ''2:2'', Identity = []\<rparr>)
      \<noteq> Some (''u'', ''h'', ''2:2'')"
  by (simp add: ParseManualConnectionID_def generateManualHostID_def IsManualConnection_def)

text \<open>
  Claim C9. \<open>IsManualConnection\<close> holds of every identifier that
  \<open>generateManualHostID\<close> produces from a connection with a hostname, and of no string
  that does not begin with \<open>manual:\<close>.
\<close>

theorem C9_IsManual:
  "(Hostname conn \<noteq> [] \<longrightarrow> IsManualConnection (generateManualHostID conn))
   \<and> (\<not> HasPrefix s ''manual:'' \<longrightarrow> \<not> IsManualConnection s)"
proof -
  have l: "length ''manual:'' = (7::nat)" by simp
  have "IsManualConnection (generateManualHostID conn)"
    by (simp add: generateManualHostID_def IsManualConnection_def Let_def)
  moreover have "\<not> HasPrefix s ''manual:'' \<longrightarrow> \<not> IsManualConnection s"
    unfolding HasPrefix_def l IsManualConnection_def by blast
  ultimately show ?thesis by blast
qed

theorem C9_IsManual_witness:
  "Hostname \<lparr>User = ''u'', Hostname = ''h'', Port = ''22'', Identity = []\<rparr> \<noteq> []
   \<and> IsManualConnection (generateManualHostID \<lparr>User = ''u'', Hostname = ''h'', Port = ''22'', Identity = []\<rparr>)
   \<and> \<not> HasPrefix ''web'' ''manual:'' \<and> \<not> IsManualConnection ''web''"
  using C9_IsManual [of "\<lparr>User = ''u'', Hostname = ''h'', Port = ''22'', Identity = []\<rparr>" "''web''"]
  by (simp add: HasPrefix_def)

section \<open>Properties of the argument parser\<close>

lemma HasPrefix_dash_p: "HasPrefix arg ''-p'' \<Longrightarrow> HasPrefix arg ''-''"
  unfolding HasPrefix_def by (cases arg) auto










lemma manualFlagLoop_iff:
  "manualFlagLoop args \<longleftrightarrow> (\<exists>a\<in>set args. ContainsAt a \<or> HasPrefix a ''-p'')"
  by (induction args) (auto simp: HasPrefix_def)




text \<open>
  Claim C10. \<open>IsManualSSHCommand\<close> holds exactly when some token contains \<open>@\<close> or
  begins with \<open>-p\<close>. It is false of a single bare hostname (not empty, no leading
  \<open>-\<close>, no \<open>@\<close>) and of \<open>-i key host\<close> for such a hostname and a key without \<open>@\<close>
  that does not begin with \<open>-p\<close>, while \<open>ParseSSHArgs\<close> accepts both lists: the two
  classifiers disagree there.
\<close>

theorem C10_IsManualSSHCommand:
  "(IsManualSSHCommand args \<longleftrightarrow> (\<exists>a\<in>set args. ContainsAt a \<or> HasPrefix a ''-p''))
   \<and> (host \<noteq> [] \<and> \<not> HasPrefix host ''-'' \<and> \<not> ContainsAt host \<longrightarrow>
        \<not> IsManualSSHCommand [host]
        \<and> ParseSSHArgs currentUser [host]
            = Some \<lparr>User = (case currentUser of Some name \<Rightarrow> name | None \<Rightarrow> []),
                    Hostname = host, Port = ''22'', Identity = []\<rparr>
        \<and> (\<not> ContainsAt key \<and> \<not> HasPrefix key ''-p'' \<longrightarrow>
             \<not> IsManualSSHCommand [''-i'', key, host]
             \<and> ParseSSHArgs currentUser [''-i'', key, host]
                 = Some \<lparr>User = (case currentUser of Some name \<Rightarrow> name | None \<Rightarrow> []),
                         Hostname = host, Port = ''22'', Identity = key\<rparr>))"
proof (intro conjI impI)
  show "IsManualSSHCommand args \<longleftrightarrow> (\<exists>a\<in>set args. ContainsAt a \<or> HasPrefix a ''-p'')"
    by (cases args) (simp_all add: IsManualSSHCommand_def manualFlagLoop_iff del: manualFlagLoop.simps)
next
  assume h: "host \<noteq> [] \<and> \<not> HasPrefix host ''-'' \<and> \<not> ContainsAt host"
  then have hp: "\<not> HasPrefix host ''-p''" "host \<noteq> ''-p''" "host \<noteq> ''-i''"
    "host \<noteq> ''-F''" "host \<noteq> ''-c''" "host \<noteq> ''--config''"
    using HasPrefix_dash_p [of host] by (auto simp: HasPrefix_def)
  show "\<not> IsManualSSHCommand [host]"
    using h hp by (simp add: IsManualSSHCommand_def)
  show "ParseSSHArgs currentUser [host]
            = Some \<lparr>User = (case currentUser of Some name \<Rightarrow> name | None \<Rightarrow> []),
                    Hostname = host, Port = ''22'', Identity = []\<rparr>"
    using h hp by (cases currentUser) (simp_all add: ParseSSHArgs_def)
  assume k: "\<not> ContainsAt key \<and> \<not> HasPrefix key ''-p''"
  have ip: "\<not> HasPrefix ''-i'' ''-p''" "\<not> ContainsAt ''-i''" "key \<noteq> ''-p''"
    using k by (auto simp: HasPrefix_def ContainsAt_def)
  show "\<not> IsManualSSHCommand [''-i'', key, host]"
    using h hp k ip by (simp add: IsManualSSHCommand_def)
  show "ParseSSHArgs currentUser [''-i'', key, host]
            = Some \<lparr>User = (case currentUser of Some name \<Rightarrow> name | None \<Rightarrow> []),
                    Hostname = host, Port = ''22'', Identity = key\<rparr>"
    using h hp ip by (cases currentUser) (simp_all add: ParseSSHArgs_def)
qed

theorem C10_IsManualSSHCommand_witness:
  "(IsManualSSHCommand [''-p'', ''2222'', ''host'']
      \<longleftrightarrow> (\<exists>a\<in>set [''-p'', ''2222'', ''host'']. ContainsAt a \<or> HasPrefix a ''-p''))
   \<and> ''myhost'' \<noteq> [] \<and> \<not> HasPrefix ''myhost'' ''-'' \<and> \<not> ContainsAt ''myhost''
   \<and> \<not> ContainsAt ''key'' \<and> \<not> HasPrefix ''key'' ''-p''
   \<and> \<not> IsManualSSHCommand [''myhost'']
   \<and> ParseSSHArgs (Some ''me'') [''myhost'']
       = Some \<lparr>User = ''me'', Hostname = ''myhost'', Port = ''22'', Identity = []\<rparr>
   \<and> \<not> IsManualSSHCommand [''-i'', ''key'', ''myhost'']
   \<and> ParseSSHArgs (Some ''me'') [''-i'', ''key'', ''myhost'']
       = Some \<lparr>User = ''me'', Hostname = ''myhost'', Port = ''22'', Identity = ''key''\<rparr>"
  using C10_IsManualSSHCommand [of "[''-p'', ''2222'', ''host'']" "''myhost''" "Some ''me''" "''key''"]
  by (simp add: HasPrefix_def ContainsAt_def)

section \<open>Properties of the history manager\<close>

lemma ancestors_Nil: "ancestors [] = [[]]"
  by (simp add: ancestors_def)

lemma ancestors_Cons: "ancestors (x # xs) = [] # map ((#) x) (ancestors xs)"
proof -
  have "[0..<Suc (Suc (length xs))] = 0 # map Suc [0..<Suc (length xs)]"
    by (simp only: map_Suc_upt upt_conv_Cons [of 0 "Suc (Suc (length xs))"] zero_less_Suc)
  then show ?thesis
    by (simp add: ancestors_def del: upt_Suc)
qed


lemma currentHostNamesLoop_lookup:
  "lookupBool (currentHostNamesLoop names hosts) k
     \<longleftrightarrow> k \<in> Name ` set hosts \<or> lookupBool names k"
  by (induction hosts arbitrary: names) (auto simp: lookupBool_def)

lemma lookupBool_empty: "lookupBool Map.empty k = False"
  by (simp add: lookupBool_def)

text \<open>
  Claim C1 (the code departs from it). \<open>CleanupOldEntries\<close> keeps exactly the entries
  whose key is the name of a current host and tests nothing else: with the history
  \<open>{web, manual:u@h:22}\<close> and no current host, the manual identifier
  \<open>manual:u@h:22\<close> is deleted together with \<open>web\<close>.
\<close>

theorem C1_CleanupOldEntries_deletes_manual:
  "Connections (history (fst (snd (CleanupOldEntries env currentHosts hm fs)))) k
     = (if k \<in> Name ` set currentHosts then Connections (history hm) k else None)
   \<and> IsManualConnection ''manual:u@h:22''
   \<and> Connections (history (fst (snd (CleanupOldEntries env []
        \<lparr>historyPath = p,
         history = \<lparr>Connections = [''web'' \<mapsto> c1, ''manual:u@h:22'' \<mapsto> c2]\<rparr>\<rparr> fs))))
       ''manual:u@h:22'' = None
   \<and> Connections (history (fst (snd (CleanupOldEntries env []
        \<lparr>historyPath = p,
         history = \<lparr>Connections = [''web'' \<mapsto> c1, ''manual:u@h:22'' \<mapsto> c2]\<rparr>\<rparr> fs))))
       ''web'' = None"
proof -
  have gen: "Connections (history (fst (snd (CleanupOldEntries env' hosts hm' fs')))) k'
     = (if k' \<in> Name ` set hosts then Connections (history hm') k' else None)"
    for env' hosts hm' fs' k'
    by (simp add: CleanupOldEntries_def Let_def currentHostNamesLoop_lookup lookupBool_empty
        split: prod.splits option.splits)
  show ?thesis
    unfolding gen by (simp add: IsManualConnection_def)
qed

text \<open>
  Claim C5 (the code departs from it). With only the history file of the earlier
  version on disk, \<open>NewHistoryManager\<close> migrates it: the document is written to its new
  place with permissions 0644, not 0600, and a later \<open>RecordConnection\<close>, which
  writes with 0600 into the file that now exists, leaves these permissions as they are.
\<close>

theorem C5_migration_writes_0644:
  "(case NewHistoryManager exampleEnv legacyFS of
      (Inl err, fs') \<Rightarrow> False
    | (Inr hm, fs') \<Rightarrow>
        historyPath hm = [''home'', ''u'', ''.config'', ''sshm'', ''sshm_history.json'']
        \<and> files fs' (historyPath hm) = Some (''{}'', mode_0644)
        \<and> (case RecordConnection exampleEnv 1 ''web'' hm fs' of
              (err, hm', fs'') \<Rightarrow>
                err = None \<and> files fs'' (historyPath hm') = Some (''{...}'', mode_0644)))
   \<and> mode_0644 \<noteq> mode_0600"
  by (simp add: NewHistoryManager_def exampleEnv_def legacyFS_def os_MkdirAll_def
      ancestors_Nil ancestors_Cons migrateOldHistoryFile_def os_Stat_def os_ReadFile_def
      os_WriteFile_def os_Remove_def loadHistory_def IsNotExist_def Let_def
      RecordConnection_def saveHistory_def mode_0644_def mode_0600_def mode_0755_def mode_0700_def)








section \<open>Properties of the order by use\<close>


















section \<open>Properties of the shell tool\<close>




end
